theory Spec2Isabelle
  imports Complex_Main "HOL-Library.Sublist"
begin

section \<open>The entity reconciliation engine (reconciliation-service/app/zingg\_client.py)\<close>

text \<open>
  A shallow embedding of class \<open>ZinggClient\<close>: the similarity scorer, the deduplicator, the
  matcher, the merge engine, the confidence aggregation and the job history.
  The methods keep their Python names without the leading underscore, which an Isabelle
  name cannot start with.

  Scores are Python floats in the source; here they are reals, so rounding is not
  modelled. Strings are ASCII.
\<close>

subsection \<open>Python values\<close>

text \<open>
  A cell of a data frame, and a value of a record dict. The model covers input records
  whose values are strings; \<open>NaN\<close> is what pandas stores for a key a record lacks,
  \<open>PyNone\<close> is Python's \<open>None\<close> (what \<open>dict.get\<close> returns for an absent key).
\<close>

datatype cell = Str string | PyNone | NaN

text \<open>\<open>str(v)\<close>, which is also what an f-string prints.\<close>

fun str :: "cell \<Rightarrow> string" where
  "str (Str s) = s"
| "str PyNone = ''None''"
| "str NaN = ''nan''"

text \<open>Truth value of a cell in \<open>if v\<close>: the empty string and \<open>None\<close> are false, NaN is true.\<close>

fun truthy :: "cell \<Rightarrow> bool" where
  "truthy (Str s) = (s \<noteq> [])"
| "truthy PyNone = False"
| "truthy NaN = True"

text \<open>\<open>str.strip()\<close> and \<open>str.lower()\<close> on ASCII text.\<close>

definition is_space :: "char \<Rightarrow> bool" where
  "is_space c = ((of_char c :: nat) \<in> {9, 10, 11, 12, 13, 28, 29, 30, 31, 32})"

definition strip :: "string \<Rightarrow> string" where
  "strip s = rev (dropWhile is_space (rev (dropWhile is_space s)))"

definition lower_char :: "char \<Rightarrow> char" where
  "lower_char c = (let n = (of_char c :: nat) in if 65 \<le> n \<and> n \<le> 90 then char_of (n + 32) else c)"

definition lower :: "string \<Rightarrow> string" where
  "lower s = map lower_char s"

text \<open>\<open>str(i)\<close> for a non-negative integer.\<close>

fun str_nat :: "nat \<Rightarrow> string" where
  "str_nat n = (if n < 10 then [char_of (48 + n)] else str_nat (n div 10) @ [char_of (48 + n mod 10)])"

text \<open>\<open>np.mean\<close> of a non-empty list.\<close>

definition np_mean :: "real list \<Rightarrow> real" where
  "np_mean xs = sum_list xs / real (length xs)"

subsection \<open>The string ratio\<close>

text \<open>
  \<open>fuzz.ratio\<close> belongs to the fuzzywuzzy library, not to the repository: the model takes
  it as a parameter \<open>ratio\<close>, an integer percentage. Where a property needs a fact about
  the library (the percentage is at most 100, the ratio is symmetric) it is a hypothesis.

  Two instances serve the concrete evaluations. \<open>lev_ratio\<close> is an edit-distance ratio;
  it gives 100 on equal non-empty strings and 0 on strings without a common character, as
  the library does. \<open>difflib_ratio\<close> is the ratio of the library's default backend.
\<close>

text \<open>Modelled from the spec: the per-field similarity (section 4.1), "a normalized
  string-edit-distance ratio (e.g., Levenshtein-based, scaled to [0,1])". Insertions and
  deletions cost 1, a substitution costs 2; the ratio is the share of the two lengths that
  the distance leaves, as a percentage.\<close>

fun lev :: "string \<Rightarrow> string \<Rightarrow> nat" where
  "lev [] ys = length ys"
| "lev (x # xs) [] = Suc (length xs)"
| "lev (x # xs) (y # ys) =
     (if x = y then lev xs ys
      else min (min (Suc (lev xs (y # ys))) (Suc (lev (x # xs) ys))) (lev xs ys + 2))"

definition lev_ratio :: "string \<Rightarrow> string \<Rightarrow> nat" where
  "lev_ratio a b =
     (let lensum = length a + length b
      in if lensum = 0 then 0 else (100 * (lensum - lev a b)) div lensum)"

text \<open>
  \<open>fuzz.ratio\<close> as fuzzywuzzy computes it with its default backend, Python's
  \<open>difflib.SequenceMatcher\<close> (library code, outside the repository; strings shorter than
  200 characters, no junk): equal strings give 100 and an empty string gives 0; otherwise
  the matching blocks are found by taking the longest common block, the earliest in the
  first string and then the earliest in the second among the longest, and matching what
  lies to its left and to its right in the same way; the ratio is twice the matched size
  over the sum of the lengths, as a percentage rounded as Python's \<open>round\<close> does (a half
  goes to the even neighbour).
\<close>

fun common_prefix :: "string \<Rightarrow> string \<Rightarrow> nat" where
  "common_prefix (x # xs) (y # ys) = (if x = y then Suc (common_prefix xs ys) else 0)"
| "common_prefix _ _ = 0"

definition find_longest_match :: "string \<Rightarrow> string \<Rightarrow> nat \<times> nat \<times> nat" where
  "find_longest_match a b =
     fold (\<lambda>(i, j) (besti, bestj, bestsize).
             (let k = common_prefix (drop i a) (drop j b)
              in if k > bestsize then (i, j, k) else (besti, bestj, bestsize)))
       (concat (map (\<lambda>i. map (\<lambda>j. (i, j)) [0..<length b]) [0..<length a]))
       (0, 0, 0)"

function matching_size :: "string \<Rightarrow> string \<Rightarrow> nat" where
  "matching_size a b =
     (case find_longest_match a b of
        (i, j, k) \<Rightarrow>
          if k = 0 \<or> length a < i + k \<or> length b < j + k then 0
          else matching_size (take i a) (take j b) + k
               + matching_size (drop (i + k) a) (drop (j + k) b))"
  by pat_completeness auto
termination
  by (relation "measure (\<lambda>(a, b). length a + length b)") auto

definition py_round_div :: "nat \<Rightarrow> nat \<Rightarrow> nat" where
  "py_round_div n d =
     (let q = n div d; r = n mod d
      in if 2 * r < d then q
         else if d < 2 * r then q + 1
         else if even q then q else q + 1)"

definition difflib_ratio :: "string \<Rightarrow> string \<Rightarrow> nat" where
  "difflib_ratio s1 s2 =
     (if s1 = s2 then 100
      else if s1 = [] \<or> s2 = [] then 0
      else py_round_div (200 * matching_size s1 s2) (length s1 + length s2))"

subsection \<open>Settings (reconciliation-service/app/config.py)\<close>

record settings =
  default_similarity_threshold :: real
  max_batch_size :: nat
  similarity_fields_weight :: "(string \<times> real) list"
  merge_strategies :: "string list"
  default_merge_strategy :: string

definition default_settings :: settings where
  "default_settings =
     \<lparr>default_similarity_threshold = 0.8,
      max_batch_size = 10000,
      similarity_fields_weight =
        [(''name'', 0.4), (''email'', 0.3), (''phone'', 0.2), (''address'', 0.1)],
      merge_strategies = [''latest_wins'', ''first_wins'', ''concatenate''],
      default_merge_strategy = ''latest_wins''\<rparr>"

subsection \<open>Data frames\<close>

text \<open>
  A pandas \<open>DataFrame\<close>: the column labels, the index labels of the rows and the rows, each
  with one cell per column. \<open>pd.DataFrame(data)\<close> of a list of dicts takes the keys in
  the order they first appear as columns, numbers the rows from 0, and fills what a
  record lacks with NaN. An input record is a dict with string values, as an association
  list in insertion order (lookup takes the first binding of a key).
\<close>

type_synonym py_record = "(string \<times> string) list"

record dataframe =
  columns :: "string list"
  index :: "nat list"
  rows :: "cell list list"

fun first_seen :: "'a list \<Rightarrow> 'a list \<Rightarrow> 'a list" where
  "first_seen seen [] = []"
| "first_seen seen (x # xs) =
     (if x \<in> set seen then first_seen seen xs else x # first_seen (x # seen) xs)"

definition DataFrame :: "py_record list \<Rightarrow> dataframe" where
  "DataFrame data =
     (let cols = first_seen [] (concat (map (map fst) data))
      in \<lparr>columns = cols,
          index = [0..<length data],
          rows = map (\<lambda>r. map (\<lambda>c. case map_of r c of Some v \<Rightarrow> Str v | None \<Rightarrow> NaN) cols) data\<rparr>)"

text \<open>A \<open>Series\<close>, here always a row of a frame: the column labels with the row's cells.\<close>

type_synonym series = "(string \<times> cell) list"

text \<open>\<open>df.iloc[i]\<close> for a position the caller knows to be in \<open>range(len(df))\<close>.\<close>

definition row_at :: "dataframe \<Rightarrow> nat \<Rightarrow> series" where
  "row_at df i = zip (columns df) (rows df ! i)"

datatype error = IndexError | InvalidConfig | BatchTooLarge

text \<open>\<open>df.iloc[i]\<close> in general: a position out of range raises IndexError. The other two
  errors are those of the spec's taxonomy; no statement of the source raises them.\<close>

definition iloc :: "dataframe \<Rightarrow> nat \<Rightarrow> error + series" where
  "iloc df i = (if i < length (rows df) then Inr (row_at df i) else Inl IndexError)"

text \<open>\<open>Series.to_dict()\<close>: a dict as a map.\<close>

definition to_dict :: "series \<Rightarrow> (string \<rightharpoonup> cell)" where
  "to_dict s = map_of s"

text \<open>
  \<open>df.drop_duplicates()\<close>: a row equal to an earlier row is removed, the rows kept keep their
  index labels. pandas returns a copy of a frame that has no rows or no columns.
\<close>

fun uniq_rows :: "cell list list \<Rightarrow> (nat \<times> cell list) list \<Rightarrow> (nat \<times> cell list) list" where
  "uniq_rows seen [] = []"
| "uniq_rows seen ((l, r) # xs) =
     (if r \<in> set seen then uniq_rows seen xs else (l, r) # uniq_rows (r # seen) xs)"

definition drop_duplicates :: "dataframe \<Rightarrow> dataframe" where
  "drop_duplicates df =
     (if columns df = [] \<or> rows df = [] then df
      else (let kept = uniq_rows [] (zip (index df) (rows df))
            in df\<lparr>index := map fst kept, rows := map snd kept\<rparr>))"

text \<open>\<open>df.drop(labels)\<close>: the rows whose index label is among \<open>labels\<close> are removed.\<close>

definition drop_labels :: "dataframe \<Rightarrow> nat set \<Rightarrow> dataframe" where
  "drop_labels df labels =
     (let kept = filter (\<lambda>(l, r). l \<notin> labels) (zip (index df) (rows df))
      in df\<lparr>index := map fst kept, rows := map snd kept\<rparr>)"

subsection \<open>SimilarityScorer\<close>

text \<open>
  \<open>_calculate_record_similarity\<close>. \<open>field in record\<close> asks whether the label is in the
  Series' index; the loop appends one similarity per field that passes both tests.
\<close>

definition similarity_step ::
  "(string \<Rightarrow> string \<Rightarrow> nat) \<Rightarrow> series \<Rightarrow> series \<Rightarrow> string \<Rightarrow> real list \<Rightarrow> real list" where
  "similarity_step ratio record1 record2 field similarities =
     (case (map_of record1 field, map_of record2 field) of
        (Some x1, Some x2) \<Rightarrow>
          (let val1 = lower (strip (str x1));
               val2 = lower (strip (str x2))
           in if val1 \<noteq> [] \<and> val2 \<noteq> []
              then similarities @ [real (ratio val1 val2) / 100]
              else similarities)
      | _ \<Rightarrow> similarities)"

definition calculate_record_similarity ::
  "(string \<Rightarrow> string \<Rightarrow> nat) \<Rightarrow> series \<Rightarrow> series \<Rightarrow> string list \<Rightarrow> real" where
  "calculate_record_similarity ratio record1 record2 flds =
     (let similarities = fold (similarity_step ratio record1 record2) flds []
      in if similarities \<noteq> [] then np_mean similarities else 0)"

text \<open>
  The loop in closed form: the fields for which it appends a similarity, and the similarity
  it appends.
\<close>

definition scored :: "series \<Rightarrow> series \<Rightarrow> string \<Rightarrow> bool" where
  "scored record1 record2 field =
     (case (map_of record1 field, map_of record2 field) of
        (Some x1, Some x2) \<Rightarrow> lower (strip (str x1)) \<noteq> [] \<and> lower (strip (str x2)) \<noteq> []
      | _ \<Rightarrow> False)"

definition scored_similarity :: "(string \<Rightarrow> string \<Rightarrow> nat) \<Rightarrow> series \<Rightarrow> series \<Rightarrow> string \<Rightarrow> real" where
  "scored_similarity ratio record1 record2 field =
     (case (map_of record1 field, map_of record2 field) of
        (Some x1, Some x2) \<Rightarrow> real (ratio (lower (strip (str x1))) (lower (strip (str x2)))) / 100
      | _ \<Rightarrow> 0)"

subsection \<open>Configuration of a call\<close>

text \<open>The \<open>matching_config\<close> dict: the three keys the engine reads, each possibly absent.\<close>

record matching_config =
  similarity_fields :: "string list option"
  similarity_threshold :: "real option"
  matching_fields :: "string list option"

text \<open>\<open>config.get(key, default)\<close>.\<close>

definition config_get :: "'a option \<Rightarrow> 'a \<Rightarrow> 'a" where
  "config_get v d = (case v of Some x \<Rightarrow> x | None \<Rightarrow> d)"

subsection \<open>Deduplicator\<close>

text \<open>
  \<open>_deduplicate_dataframe\<close>. The two nested loops run over positions; \<open>to_remove\<close> is the
  set of positions marked so far.
\<close>

definition dedup_inner ::
  "(string \<Rightarrow> string \<Rightarrow> nat) \<Rightarrow> dataframe \<Rightarrow> string list \<Rightarrow> real \<Rightarrow> nat \<Rightarrow> nat \<Rightarrow> nat set \<Rightarrow> nat set" where
  "dedup_inner ratio df flds threshold i j to_remove =
     (if j \<in> to_remove then to_remove
      else if calculate_record_similarity ratio (row_at df i) (row_at df j) flds \<ge> threshold
           then insert j to_remove
           else to_remove)"

definition dedup_outer ::
  "(string \<Rightarrow> string \<Rightarrow> nat) \<Rightarrow> dataframe \<Rightarrow> string list \<Rightarrow> real \<Rightarrow> nat \<Rightarrow> nat set \<Rightarrow> nat set" where
  "dedup_outer ratio df flds threshold i to_remove =
     (if i \<in> to_remove then to_remove
      else fold (dedup_inner ratio df flds threshold i) [Suc i..<length (rows df)] to_remove)"

definition deduplicate_dataframe ::
  "(string \<Rightarrow> string \<Rightarrow> nat) \<Rightarrow> dataframe \<Rightarrow> matching_config \<Rightarrow> dataframe" where
  "deduplicate_dataframe ratio df0 config =
     (let df = drop_duplicates df0;
          similarity_fields = config_get (similarity_fields config) [];
          threshold = config_get (similarity_threshold config) 0.9
      in if similarity_fields \<noteq> [] then
           (let to_remove = fold (dedup_outer ratio df similarity_fields threshold)
                              [0..<length (rows df)] {}
            in drop_labels df ((\<lambda>p. index df ! p) ` to_remove))
         else df)"

subsection \<open>Matcher\<close>

text \<open>
  A match dict. Its key \<open>matching_fields\<close> is the field \<open>match_fields\<close> here, the
  configuration having a field of that name already.
\<close>

record entity_match =
  entity_1_index :: nat
  entity_2_index :: nat
  entity_1_id :: cell
  entity_2_id :: cell
  similarity_score :: real
  match_fields :: "string list"

text \<open>\<open>series.get("id", str(i))\<close>.\<close>

definition series_get_id :: "series \<Rightarrow> nat \<Rightarrow> cell" where
  "series_get_id s i = (case map_of s ''id'' of Some v \<Rightarrow> v | None \<Rightarrow> Str (str_nat i))"

definition find_entity_matches ::
  "(string \<Rightarrow> string \<Rightarrow> nat) \<Rightarrow> dataframe \<Rightarrow> matching_config \<Rightarrow> real \<Rightarrow> entity_match list" where
  "find_entity_matches ratio df config threshold =
     (let flds = config_get (matching_fields config) []
      in if flds = [] then []
         else concat (map (\<lambda>i. concat (map (\<lambda>j.
                (let similarity = calculate_record_similarity ratio (row_at df i) (row_at df j) flds
                 in if similarity \<ge> threshold
                    then [\<lparr>entity_1_index = i, entity_2_index = j,
                           entity_1_id = series_get_id (row_at df i) i,
                           entity_2_id = series_get_id (row_at df j) j,
                           similarity_score = similarity,
                           match_fields = flds\<rparr>]
                    else []))
                [Suc i..<length (rows df)]))
              [0..<length (rows df)]))"

subsection \<open>MergeEngine\<close>

text \<open>The three strategies, on the dicts of the two rows.\<close>

definition merge_latest_wins :: "(string \<rightharpoonup> cell) \<Rightarrow> (string \<rightharpoonup> cell) \<Rightarrow> (string \<rightharpoonup> cell)" where
  "merge_latest_wins record1 record2 =
     (\<lambda>key. case record2 key of
        Some v \<Rightarrow> if v \<noteq> PyNone \<and> v \<noteq> Str [] then Some v else record1 key
      | None \<Rightarrow> record1 key)"

definition merge_first_wins :: "(string \<rightharpoonup> cell) \<Rightarrow> (string \<rightharpoonup> cell) \<Rightarrow> (string \<rightharpoonup> cell)" where
  "merge_first_wins record1 record2 =
     (\<lambda>key. case record2 key of
        Some v \<Rightarrow>
          (case record1 key of
             None \<Rightarrow> Some v
           | Some w \<Rightarrow> if w = PyNone \<or> w = Str [] then Some v else Some w)
      | None \<Rightarrow> record1 key)"

text \<open>\<open>record.get(key, "")\<close>; the loop of \<open>_merge_concatenate\<close> runs over the keys of
  either dict, so a key of neither is not in the result.\<close>

definition get_or_empty :: "(string \<rightharpoonup> cell) \<Rightarrow> string \<Rightarrow> cell" where
  "get_or_empty r key = (case r key of Some v \<Rightarrow> v | None \<Rightarrow> Str [])"

definition merge_concatenate :: "(string \<rightharpoonup> cell) \<Rightarrow> (string \<rightharpoonup> cell) \<Rightarrow> (string \<rightharpoonup> cell)" where
  "merge_concatenate record1 record2 =
     (\<lambda>key. if record1 key = None \<and> record2 key = None then None
        else
          (let val1 = get_or_empty record1 key;
               val2 = get_or_empty record2 key
           in if truthy val1 \<and> truthy val2 then Some (Str (str val1 @ '' | '' @ str val2))
              else if truthy val1 then Some val1
              else Some val2))"

text \<open>
  An output record: the row's cells, and for a merged record the provenance under
  \<open>_merged_from\<close> and the pair's score under \<open>_similarity_score\<close>.
\<close>

datatype outval = Cell cell | MergedFrom "cell list" | Score real

type_synonym out_record = "string \<rightharpoonup> outval"

text \<open>\<open>record.get("id")\<close>.\<close>

definition get_id :: "(string \<rightharpoonup> cell) \<Rightarrow> cell" where
  "get_id r = (case r ''id'' of Some v \<Rightarrow> v | None \<Rightarrow> PyNone)"

definition apply_strategy :: "string \<Rightarrow> (string \<rightharpoonup> cell) \<Rightarrow> (string \<rightharpoonup> cell) \<Rightarrow> (string \<rightharpoonup> cell)" where
  "apply_strategy merge_strategy record1 record2 =
     (if merge_strategy = ''latest_wins'' then merge_latest_wins record1 record2
      else if merge_strategy = ''first_wins'' then merge_first_wins record1 record2
      else if merge_strategy = ''concatenate'' then merge_concatenate record1 record2
      else record1)"

definition out_of_cells :: "(string \<rightharpoonup> cell) \<Rightarrow> out_record" where
  "out_of_cells r = (\<lambda>key. map_option Cell (r key))"

text \<open>
  The loop over the matches of \<open>_merge_matched_entities\<close>: the state is the output so far
  and \<open>processed_indices\<close>.
\<close>

fun merge_loop ::
  "dataframe \<Rightarrow> string \<Rightarrow> entity_match list \<Rightarrow> out_record list \<times> nat set
     \<Rightarrow> error + (out_record list \<times> nat set)" where
  "merge_loop df merge_strategy [] acc = Inr acc"
| "merge_loop df merge_strategy (m # ms) (merged_records, processed_indices) =
     (let idx1 = entity_1_index m; idx2 = entity_2_index m
      in if idx1 \<in> processed_indices \<or> idx2 \<in> processed_indices
         then merge_loop df merge_strategy ms (merged_records, processed_indices)
         else
           (case iloc df idx1 of
              Inl e \<Rightarrow> Inl e
            | Inr s1 \<Rightarrow>
                (case iloc df idx2 of
                   Inl e \<Rightarrow> Inl e
                 | Inr s2 \<Rightarrow>
                     (let record1 = to_dict s1;
                          record2 = to_dict s2;
                          merged_record = out_of_cells (apply_strategy merge_strategy record1 record2);
                          merged_record = merged_record
                            (''_merged_from'' \<mapsto> MergedFrom [get_id record1, get_id record2],
                             ''_similarity_score'' \<mapsto> Score (similarity_score m))
                      in merge_loop df merge_strategy ms
                           (merged_records @ [merged_record],
                            processed_indices \<union> {idx1, idx2})))))"

text \<open>
  \<open>_merge_matched_entities\<close>. The second loop, \<open>for i, row in df.iterrows()\<close>, tests the
  row's index label \<open>i\<close> against \<open>processed_indices\<close>.
\<close>

definition merge_matched_entities ::
  "dataframe \<Rightarrow> entity_match list \<Rightarrow> string \<Rightarrow> error + out_record list" where
  "merge_matched_entities df matches merge_strategy =
     (case merge_loop df merge_strategy matches ([], {}) of
        Inl e \<Rightarrow> Inl e
      | Inr (merged_records, processed_indices) \<Rightarrow>
          Inr (merged_records @
               map (\<lambda>(i, row). out_of_cells (to_dict (zip (columns df) row)))
                 (filter (\<lambda>(i, row). i \<notin> processed_indices) (zip (index df) (rows df)))))"

text \<open>
  The matches that the loop of \<open>_merge_matched_entities\<close> does not skip, given the positions
  processed so far: a match is skipped when one of its two positions has been processed, and
  a match that is not skipped adds its two positions (the claimed pairs of spec 4.4).
\<close>

fun accepted_pairs :: "entity_match list \<Rightarrow> nat set \<Rightarrow> entity_match list" where
  "accepted_pairs [] processed_indices = []"
| "accepted_pairs (m # ms) processed_indices =
     (if entity_1_index m \<in> processed_indices \<or> entity_2_index m \<in> processed_indices
      then accepted_pairs ms processed_indices
      else m # accepted_pairs ms (processed_indices \<union> {entity_1_index m, entity_2_index m}))"

text \<open>The values of an outcome's records under the given keys, for reading a result.\<close>

definition shown :: "string list \<Rightarrow> error + out_record list \<Rightarrow> error + outval option list list" where
  "shown keys outcome = map_sum id (map (\<lambda>r. map r keys)) outcome"

subsection \<open>ConfidenceAggregator\<close>

text \<open>\<open>np.std\<close>: the population standard deviation.\<close>

definition np_std :: "real list \<Rightarrow> real" where
  "np_std xs = sqrt (np_mean (map (\<lambda>x. (x - np_mean xs)\<^sup>2) xs))"

definition calculate_confidence_scores :: "entity_match list \<Rightarrow> (string \<rightharpoonup> real)" where
  "calculate_confidence_scores matches =
     (if matches = [] then Map.empty
      else (let scores = map similarity_score matches
            in [''average_confidence'' \<mapsto> np_mean scores,
                ''min_confidence'' \<mapsto> Min (set scores),
                ''max_confidence'' \<mapsto> Max (set scores),
                ''std_confidence'' \<mapsto> np_std scores,
                ''high_confidence_count'' \<mapsto> real (length (filter (\<lambda>s. s > 0.9) scores)),
                ''medium_confidence_count'' \<mapsto> real (length (filter (\<lambda>s. 0.7 \<le> s \<and> s \<le> 0.9) scores)),
                ''low_confidence_count'' \<mapsto> real (length (filter (\<lambda>s. s < 0.7) scores))]))"

subsection \<open>The public operations and the job history\<close>

record job =
  job_reconciliation_id :: string
  job_entity_type :: string
  job_original_records :: nat
  job_deduplicated_records :: nat
  job_matched_pairs :: nat
  job_execution_time :: real
  job_timestamp :: real
  job_status :: string

record zingg_client =
  reconciliation_history :: "job list"

record reconciliation_result =
  reconciliation_id :: string
  original_records :: nat
  deduplicated_records :: nat
  matched_pairs :: nat
  merged_records :: "out_record list"
  confidence_scores :: "string \<rightharpoonup> real"
  execution_time :: real

text \<open>
  \<open>reconcile_entities\<close>. The fresh uuid, the clock reading at the end and the measured
  duration are inputs of the model (\<open>rid\<close>, \<open>now\<close>, \<open>elapsed\<close>). An exception leaves the
  \<open>try\<close> block before the history is appended to and is raised again.
\<close>

definition reconcile_entities ::
  "(string \<Rightarrow> string \<Rightarrow> nat) \<Rightarrow> zingg_client \<Rightarrow> string \<Rightarrow> real \<Rightarrow> real
     \<Rightarrow> py_record list \<Rightarrow> matching_config \<Rightarrow> string \<Rightarrow> real \<Rightarrow> bool \<Rightarrow> string
     \<Rightarrow> error + (reconciliation_result \<times> zingg_client)" where
  "reconcile_entities ratio self rid now elapsed data config entity_type threshold
       deduplication merge_strategy =
     (let df0 = DataFrame data;
          original = length (rows df0);
          df = (if deduplication then deduplicate_dataframe ratio df0 config else df0);
          deduplicated = length (rows df);
          matches = find_entity_matches ratio df config threshold;
          pairs = length matches
      in case merge_matched_entities df matches merge_strategy of
           Inl e \<Rightarrow> Inl e
         | Inr merged \<Rightarrow>
             Inr (\<lparr>reconciliation_id = rid,
                   original_records = original,
                   deduplicated_records = deduplicated,
                   matched_pairs = pairs,
                   merged_records = merged,
                   confidence_scores = calculate_confidence_scores matches,
                   execution_time = elapsed\<rparr>,
                  self\<lparr>reconciliation_history := reconciliation_history self @
                    [\<lparr>job_reconciliation_id = rid,
                      job_entity_type = entity_type,
                      job_original_records = original,
                      job_deduplicated_records = deduplicated,
                      job_matched_pairs = pairs,
                      job_execution_time = elapsed,
                      job_timestamp = now,
                      job_status = ''completed''\<rparr>]\<rparr>))"

text \<open>\<open>find_matches\<close> and \<open>deduplicate_data\<close>: no statement of either raises.\<close>

definition find_matches ::
  "(string \<Rightarrow> string \<Rightarrow> nat) \<Rightarrow> py_record list \<Rightarrow> matching_config \<Rightarrow> real
     \<Rightarrow> error + entity_match list" where
  "find_matches ratio data config threshold =
     Inr (find_entity_matches ratio (DataFrame data) config threshold)"

definition deduplicate_data ::
  "(string \<Rightarrow> string \<Rightarrow> nat) \<Rightarrow> py_record list \<Rightarrow> matching_config \<Rightarrow> (string \<rightharpoonup> cell) list" where
  "deduplicate_data ratio data config =
     (let df = deduplicate_dataframe ratio (DataFrame data) config
      in map (\<lambda>row. to_dict (zip (columns df) row)) (rows df))"

subsection \<open>The scorer's contract as the spec words it\<close>

text \<open>
  Section 4.1 of the spec, for comparison with \<open>calculate_record_similarity\<close>: a field
  contributes when both records have it with a value that is not empty after trimming and
  lowercasing; a record whose value is missing (NaN) or null does not have the field. The
  score is the weighted mean of the per-field similarities of the contributing fields,
  with the weights of the configuration when they are supplied and equal weights
  otherwise, and 0 when no field contributes.
\<close>

definition contributes :: "series \<Rightarrow> series \<Rightarrow> string \<Rightarrow> bool" where
  "contributes record1 record2 field =
     (case (map_of record1 field, map_of record2 field) of
        (Some (Str s1), Some (Str s2)) \<Rightarrow> lower (strip s1) \<noteq> [] \<and> lower (strip s2) \<noteq> []
      | _ \<Rightarrow> False)"

definition field_similarity :: "(string \<Rightarrow> string \<Rightarrow> nat) \<Rightarrow> series \<Rightarrow> series \<Rightarrow> string \<Rightarrow> real" where
  "field_similarity ratio record1 record2 field =
     (case (map_of record1 field, map_of record2 field) of
        (Some (Str s1), Some (Str s2)) \<Rightarrow> real (ratio (lower (strip s1)) (lower (strip s2))) / 100
      | _ \<Rightarrow> 0)"

definition field_weight :: "(string \<times> real) list option \<Rightarrow> string \<Rightarrow> real" where
  "field_weight weights field =
     (case weights of
        None \<Rightarrow> 1
      | Some ws \<Rightarrow> (case map_of ws field of Some w \<Rightarrow> w | None \<Rightarrow> 1))"

definition spec_score ::
  "(string \<Rightarrow> string \<Rightarrow> nat) \<Rightarrow> series \<Rightarrow> series \<Rightarrow> string list
     \<Rightarrow> (string \<times> real) list option \<Rightarrow> real" where
  "spec_score ratio record1 record2 flds weights =
     (let cs = filter (contributes record1 record2) flds
      in if cs = [] then 0
         else (\<Sum>f\<leftarrow>cs. field_weight weights f * field_similarity ratio record1 record2 f)
              / (\<Sum>f\<leftarrow>cs. field_weight weights f))"

text \<open>
  The Series holds a string under the label, if it has the label at all: its value there
  is neither missing (NaN) nor null.
\<close>

definition string_valued :: "series \<Rightarrow> string \<Rightarrow> bool" where
  "string_valued record field =
     (case map_of record field of None \<Rightarrow> True | Some (Str s) \<Rightarrow> True | Some _ \<Rightarrow> False)"


subsection \<open>Example inputs\<close>

text \<open>A batch whose first two records are equal and whose last two agree on the name.\<close>

definition example_batch :: "py_record list" where
  "example_batch =
     [[(''id'', ''1''), (''name'', ''a'')],
      [(''id'', ''1''), (''name'', ''a'')],
      [(''id'', ''2''), (''name'', ''bob'')],
      [(''id'', ''3''), (''name'', ''bob'')]]"

text \<open>Two records with the same name; the first has an empty city.\<close>

definition example_pair :: "py_record list" where
  "example_pair =
     [[(''id'', ''1''), (''name'', ''bob''), (''city'', [])],
      [(''id'', ''2''), (''name'', ''bob''), (''city'', ''Oslo'')]]"

text \<open>Four records, two pairs of equal names; the first record of each pair has an empty city.\<close>

definition example_two_pairs :: "py_record list" where
  "example_two_pairs =
     [[(''id'', ''1''), (''name'', ''bob''), (''city'', [])],
      [(''id'', ''2''), (''name'', ''bob''), (''city'', ''Oslo'')],
      [(''id'', ''3''), (''name'', ''amy''), (''city'', [])],
      [(''id'', ''4''), (''name'', ''amy''), (''city'', ''Rome'')]]"

text \<open>Three records: two equal names and a near one.\<close>

definition example_names :: "py_record list" where
  "example_names =
     [[(''id'', ''1''), (''name'', ''bob'')],
      [(''id'', ''2''), (''name'', ''bob'')],
      [(''id'', ''3''), (''name'', ''rob'')]]"



definition match_on_name :: matching_config where
  "match_on_name =
     \<lparr>similarity_fields = None, similarity_threshold = None, matching_fields = Some [''name'']\<rparr>"

section \<open>Properties\<close>

subsection \<open>Frames\<close>

lemma length_rows_DataFrame: "length (rows (DataFrame data)) = length data"
  by (simp add: DataFrame_def Let_def)

subsection \<open>The scorer\<close>

text \<open>The loop of the scorer collects the similarities of the contributing fields, in order.\<close>

lemma fold_similarity_step:
  "fold (similarity_step ratio r1 r2) flds acc =
     acc @ map (scored_similarity ratio r1 r2) (filter (scored r1 r2) flds)"
  by (induction flds arbitrary: acc)
     (auto simp: similarity_step_def scored_def scored_similarity_def Let_def split: option.splits)

lemma similarity_closed_form:
  "calculate_record_similarity ratio r1 r2 flds =
     (let cs = filter (scored r1 r2) flds
      in if cs = [] then 0 else (\<Sum>f\<leftarrow>cs. scored_similarity ratio r1 r2 f) / real (length cs))"
  by (simp add: calculate_record_similarity_def fold_similarity_step np_mean_def Let_def)

lemma sum_list_const_one: "(\<Sum>f\<leftarrow>cs. (1::real)) = real (length cs)"
  by (induction cs) auto

lemma scored_similarity_bounds:
  assumes "\<And>a b. ratio a b \<le> 100"
  shows "0 \<le> scored_similarity ratio r1 r2 f" "scored_similarity ratio r1 r2 f \<le> 1"
  using assms by (auto simp: scored_similarity_def split: option.splits)

lemma sum_list_bounds:
  assumes "\<And>x. x \<in> set xs \<Longrightarrow> 0 \<le> g x \<and> g x \<le> (1::real)"
  shows "0 \<le> (\<Sum>x\<leftarrow>xs. g x) \<and> (\<Sum>x\<leftarrow>xs. g x) \<le> real (length xs)"
  using assms by (induction xs) (auto, force+)

lemma similarity_bounds:
  assumes "\<And>a b. ratio a b \<le> 100"
  shows "0 \<le> calculate_record_similarity ratio r1 r2 flds \<and> calculate_record_similarity ratio r1 r2 flds \<le> 1"
proof -
  let ?cs = "filter (scored r1 r2) flds"
  have b: "0 \<le> (\<Sum>f\<leftarrow>?cs. scored_similarity ratio r1 r2 f) \<and> (\<Sum>f\<leftarrow>?cs. scored_similarity ratio r1 r2 f) \<le> real (length ?cs)"
    by (rule sum_list_bounds) (use scored_similarity_bounds[OF assms] in auto)
  show ?thesis
  proof (cases "?cs = []")
    case True then show ?thesis by (simp add: similarity_closed_form)
  next
    case False
    then have "0 < real (length ?cs)" by simp
    with b False show ?thesis
      by (simp add: similarity_closed_form Let_def divide_le_eq)
  qed
qed

lemma scored_commute: "scored r1 r2 f = scored r2 r1 f"
  by (auto simp: scored_def split: option.splits)

lemma scored_similarity_commute:
  assumes "\<And>a b. ratio a b = ratio b a"
  shows "scored_similarity ratio r1 r2 f = scored_similarity ratio r2 r1 f"
  using assms by (auto simp: scored_similarity_def split: option.splits)

lemma similarity_commute:
  assumes "\<And>a b. ratio a b = ratio b a"
  shows "calculate_record_similarity ratio r1 r2 flds = calculate_record_similarity ratio r2 r1 flds"
proof -
  have c: "filter (scored r1 r2) flds = filter (scored r2 r1) flds"
    by (rule filter_cong) (simp_all add: scored_commute)
  have f: "map (scored_similarity ratio r1 r2) cs = map (scored_similarity ratio r2 r1) cs" for cs
    by (rule map_cong) (simp_all add: scored_similarity_commute[OF assms])
  show ?thesis
    by (simp only: similarity_closed_form c f)
qed

lemma lev_Nil2: "lev xs [] = length xs"
  by (cases xs) simp_all

lemma lev_sym: "lev xs ys = lev ys xs"
  by (induction xs ys rule: lev.induct) (simp_all add: lev_Nil2 min.commute)

lemma lev_ratio_sym: "lev_ratio a b = lev_ratio b a"
  unfolding lev_ratio_def by (subst lev_sym) (simp add: add.commute)

lemma lev_ratio_le: "lev_ratio a b \<le> 100"
proof (cases "length a + length b = 0")
  case True
  then show ?thesis by (simp add: lev_ratio_def)
next
  case False
  let ?L = "length a + length b"
  have "100 * (?L - lev a b) div ?L \<le> (100 * ?L) div ?L"
    by (rule div_le_mono) simp
  also have "\<dots> = 100" using False by (rule nonzero_mult_div_cancel_right)
  finally show ?thesis using False by (simp add: lev_ratio_def Let_def)
qed

lemma field_weight_None: "field_weight None = (\<lambda>f. 1)"
  by (simp add: fun_eq_iff field_weight_def)

text \<open>
  On Series that hold strings under the fields, the loop scores exactly the fields that
  contribute in the spec's sense.
\<close>

lemma scored_string_valued:
  assumes "string_valued r1 f" "string_valued r2 f"
  shows "scored r1 r2 f = contributes r1 r2 f"
    and "scored_similarity ratio r1 r2 f = field_similarity ratio r1 r2 f"
  using assms
  by (auto simp: scored_def contributes_def scored_similarity_def field_similarity_def
        string_valued_def split: option.splits cell.splits)

lemma similarity_spec_form:
  assumes "\<forall>f \<in> set flds. string_valued r1 f \<and> string_valued r2 f"
  shows "calculate_record_similarity ratio r1 r2 flds =
     (let cs = filter (contributes r1 r2) flds
      in if cs = [] then 0 else (\<Sum>f\<leftarrow>cs. field_similarity ratio r1 r2 f) / real (length cs))"
proof -
  have c: "filter (scored r1 r2) flds = filter (contributes r1 r2) flds"
    by (rule filter_cong) (use assms in \<open>simp_all add: scored_string_valued(1)\<close>)
  have "set (filter (contributes r1 r2) flds) \<subseteq> set flds" by simp
  then have f: "map (scored_similarity ratio r1 r2) (filter (contributes r1 r2) flds)
      = map (field_similarity ratio r1 r2) (filter (contributes r1 r2) flds)"
    by (intro map_cong) (use assms in \<open>auto simp: scored_string_valued(2)\<close>)
  show ?thesis
    by (simp only: similarity_closed_form Let_def c f)
qed

text \<open>
  Claim C4, as amended. For every two records and every field list such that each record
  holds a string under each of the fields it has, the score is the plain arithmetic mean
  (equal weights: the scorer takes no weights) of the per-field string ratios, as fractions
  of 100, over the contributing fields only; a field contributes only if it is present in
  both records with a value that is not empty after trimming and lowercasing. If no field
  contributes the score is exactly 0. Given that the library's ratio is a percentage (at
  most 100), the score lies in [0,1]. Nothing is said here of a field under which a record
  holds a missing value or null.
\<close>

theorem scorer_unweighted_mean:
  assumes "\<forall>f \<in> set flds. string_valued record1 f \<and> string_valued record2 f"
  shows "calculate_record_similarity ratio record1 record2 flds = spec_score ratio record1 record2 flds None
   \<and> (filter (contributes record1 record2) flds = [] \<longrightarrow>
        calculate_record_similarity ratio record1 record2 flds = 0)
   \<and> ((\<forall>a b. ratio a b \<le> 100) \<longrightarrow>
        0 \<le> calculate_record_similarity ratio record1 record2 flds
        \<and> calculate_record_similarity ratio record1 record2 flds \<le> 1)"
proof (intro conjI impI)
  show "calculate_record_similarity ratio record1 record2 flds = spec_score ratio record1 record2 flds None"
    by (simp add: similarity_spec_form[OF assms] spec_score_def field_weight_None
          sum_list_const_one Let_def)
  show "calculate_record_similarity ratio record1 record2 flds = 0"
    if "filter (contributes record1 record2) flds = []"
    using that by (simp add: similarity_spec_form[OF assms])
  show "0 \<le> calculate_record_similarity ratio record1 record2 flds"
    if "\<forall>a b. ratio a b \<le> 100"
    using similarity_bounds[of ratio record1 record2 flds] that by simp
  show "calculate_record_similarity ratio record1 record2 flds \<le> 1"
    if "\<forall>a b. ratio a b \<le> 100"
    using similarity_bounds[of ratio record1 record2 flds] that by simp
qed

text \<open>
  The theorem at two inputs. In the first both fields contribute (the names agree after
  trimming and lowercasing, the emails share nothing) and the score is 1/2. In the second
  the name is blank after trimming and the second record has no email, so no field
  contributes.
\<close>

theorem scorer_unweighted_mean_witness:
  "calculate_record_similarity lev_ratio
      [(''name'', Str '' Bob ''), (''email'', Str ''a'')]
      [(''name'', Str ''bob''), (''email'', Str ''b'')] [''name'', ''email'']
    = spec_score lev_ratio
      [(''name'', Str '' Bob ''), (''email'', Str ''a'')]
      [(''name'', Str ''bob''), (''email'', Str ''b'')] [''name'', ''email''] None
   \<and> 0 \<le> calculate_record_similarity lev_ratio
      [(''name'', Str '' Bob ''), (''email'', Str ''a'')]
      [(''name'', Str ''bob''), (''email'', Str ''b'')] [''name'', ''email'']
   \<and> calculate_record_similarity lev_ratio
      [(''name'', Str '' Bob ''), (''email'', Str ''a'')]
      [(''name'', Str ''bob''), (''email'', Str ''b'')] [''name'', ''email''] \<le> 1
   \<and> filter (contributes [(''name'', Str '' Bob ''), (''email'', Str ''a'')]
                            [(''name'', Str ''  ''), (''phone'', Str ''1'')]) [''name'', ''email''] = []
   \<and> calculate_record_similarity lev_ratio
      [(''name'', Str '' Bob ''), (''email'', Str ''a'')]
      [(''name'', Str ''  ''), (''phone'', Str ''1'')] [''name'', ''email''] = 0"
proof -
  have s1: "\<forall>f \<in> set [''name'', ''email''].
              string_valued [(''name'', Str '' Bob ''), (''email'', Str ''a'')] f
              \<and> string_valued [(''name'', Str ''bob''), (''email'', Str ''b'')] f"
    by (simp add: string_valued_def)
  have s2: "\<forall>f \<in> set [''name'', ''email''].
              string_valued [(''name'', Str '' Bob ''), (''email'', Str ''a'')] f
              \<and> string_valued [(''name'', Str ''  ''), (''phone'', Str ''1'')] f"
    by (simp add: string_valued_def)
  have nocontrib:
    "filter (contributes [(''name'', Str '' Bob ''), (''email'', Str ''a'')]
                         [(''name'', Str ''  ''), (''phone'', Str ''1'')]) [''name'', ''email''] = []"
    by code_simp
  have pct: "\<forall>a b. lev_ratio a b \<le> 100"
    by (simp add: lev_ratio_le)
  show ?thesis
    using scorer_unweighted_mean[OF s1, of lev_ratio] scorer_unweighted_mean[OF s2, of lev_ratio]
          nocontrib pct
    by blast
qed

text \<open>
  Claim C4 as stated fails: with the weights of the settings supplied
  (name 0.4, email 0.3), the weighted mean of the similarities 1 and 0 is 4/7, and the
  scorer returns 1/2.
\<close>

theorem scorer_ignores_weights_counterexample:
  "calculate_record_similarity lev_ratio
      [(''name'', Str '' Bob ''), (''email'', Str ''a'')]
      [(''name'', Str ''bob''), (''email'', Str ''b'')] [''name'', ''email''] = 1 / 2
   \<and> spec_score lev_ratio
      [(''name'', Str '' Bob ''), (''email'', Str ''a'')]
      [(''name'', Str ''bob''), (''email'', Str ''b'')] [''name'', ''email'']
      (Some (similarity_fields_weight default_settings)) = 4 / 7"
  by code_simp

text \<open>The score of two records over one field under which both hold a string.\<close>

lemma similarity_one_field:
  "calculate_record_similarity ratio [(f, Str a)] [(f, Str b)] [f]
     = (if lower (strip a) \<noteq> [] \<and> lower (strip b) \<noteq> []
        then real (ratio (lower (strip a)) (lower (strip b))) / 100 else 0)"
  by (simp add: calculate_record_similarity_def similarity_step_def np_mean_def Let_def)

text \<open>
  Claim C9, as amended. The score is symmetric as far as the library's string ratio is:
  for every two records and every field list, score(A, B, F) equals score(B, A, F) when the
  string ratio is symmetric; and for two records with one field, the two scores are equal
  exactly when a value is empty after trimming and lowercasing or the string ratio of the
  two values is the same in both orders.
\<close>

theorem score_symmetry:
  "((\<forall>a b. ratio a b = ratio b a) \<longrightarrow>
      calculate_record_similarity ratio record1 record2 flds
      = calculate_record_similarity ratio record2 record1 flds)
   \<and> ((calculate_record_similarity ratio [(f, Str s1)] [(f, Str s2)] [f]
        = calculate_record_similarity ratio [(f, Str s2)] [(f, Str s1)] [f])
       = (lower (strip s1) = [] \<or> lower (strip s2) = []
          \<or> ratio (lower (strip s1)) (lower (strip s2)) = ratio (lower (strip s2)) (lower (strip s1))))"
proof (intro conjI impI)
  assume "\<forall>a b. ratio a b = ratio b a"
  then show "calculate_record_similarity ratio record1 record2 flds
      = calculate_record_similarity ratio record2 record1 flds"
    by (intro similarity_commute) simp
next
  show "(calculate_record_similarity ratio [(f, Str s1)] [(f, Str s2)] [f]
        = calculate_record_similarity ratio [(f, Str s2)] [(f, Str s1)] [f])
       = (lower (strip s1) = [] \<or> lower (strip s2) = []
          \<or> ratio (lower (strip s1)) (lower (strip s2)) = ratio (lower (strip s2)) (lower (strip s1)))"
    by (auto simp: similarity_one_field)
qed

text \<open>
  The theorem with the edit-distance ratio, which is symmetric, on two records of which
  one lacks the email.
\<close>

theorem score_symmetry_witness:
  "calculate_record_similarity lev_ratio
      [(''name'', Str ''Jon''), (''email'', Str ''j@x.com'')]
      [(''name'', Str ''john''), (''email'', NaN)] [''name'', ''email'']
   = calculate_record_similarity lev_ratio
      [(''name'', Str ''john''), (''email'', NaN)]
      [(''name'', Str ''Jon''), (''email'', Str ''j@x.com'')] [''name'', ''email'']"
proof -
  have "\<forall>a b. lev_ratio a b = lev_ratio b a"
    using lev_ratio_sym by blast
  with score_symmetry[of lev_ratio] show ?thesis
    by blast
qed

text \<open>
  Claim C9 as stated fails with the ratio of the library's default backend: the matching
  blocks of "tide" in "diet" have size 1 and those of "diet" in "tide" have size 2, so the
  score of the two records is 1/4 in one order and 1/2 in the other.
\<close>

theorem score_asymmetric_counterexample:
  "difflib_ratio ''tide'' ''diet'' = 25
   \<and> difflib_ratio ''diet'' ''tide'' = 50
   \<and> calculate_record_similarity difflib_ratio
        [(''name'', Str ''tide'')] [(''name'', Str ''diet'')] [''name''] = 1 / 4
   \<and> calculate_record_similarity difflib_ratio
        [(''name'', Str ''diet'')] [(''name'', Str ''tide'')] [''name''] = 1 / 2"
  by code_simp

text \<open>
  A key that an input record lacks is NaN in the frame, its label is in every row's index,
  and the scorer compares the string \<open>nan\<close>: the second record below has no name, and its
  score against a record named "nan" is 1.
\<close>

lemma missing_key_is_scored:
  "calculate_record_similarity lev_ratio
     (row_at (DataFrame [[(''name'', ''nan'')], [(''id'', ''7'')]]) 0)
     (row_at (DataFrame [[(''name'', ''nan'')], [(''id'', ''7'')]]) 1) [''name''] = 1"
  by code_simp

subsection \<open>The matcher\<close>

lemma subseq_concat_map:
  assumes "\<And>x. x \<in> set xs \<Longrightarrow> subseq (f x) (g x)"
  shows "subseq (concat (map f xs)) (concat (map g xs))"
  using assms by (induction xs) (auto intro: list_emb_append_mono)

lemma find_entity_matches_subseq:
  assumes "t1 \<le> t2"
  shows "subseq (find_entity_matches ratio df config t2) (find_entity_matches ratio df config t1)"
proof (cases "config_get (matching_fields config) [] = []")
  case True
  then show ?thesis by (simp add: find_entity_matches_def)
next
  case False
  show ?thesis
    unfolding find_entity_matches_def Let_def using False assms
    by (auto intro!: subseq_concat_map)
qed

lemma find_entity_matches_in_range:
  assumes "m \<in> set (find_entity_matches ratio df config t)"
  shows "entity_1_index m < entity_2_index m \<and> entity_2_index m < length (rows df)"
  using assms
  by (auto simp: find_entity_matches_def Let_def split: if_splits)

text \<open>
  Claim C8. For every frame and matching configuration and every two thresholds
  \<open>t1 \<le> t2\<close>, the matches returned at \<open>t2\<close> are among those returned at \<open>t1\<close>, in the same
  order; raising the threshold never increases their number.
\<close>

theorem threshold_monotonicity:
  assumes "t1 \<le> t2"
  shows "set (find_entity_matches ratio df config t2) \<subseteq> set (find_entity_matches ratio df config t1)
         \<and> length (find_entity_matches ratio df config t2) \<le> length (find_entity_matches ratio df config t1)
         \<and> subseq (find_entity_matches ratio df config t2) (find_entity_matches ratio df config t1)"
  using find_entity_matches_subseq[OF assms, of ratio df config]
  by (auto dest: list_emb_length list_emb_set)

theorem threshold_monotonicity_witness:
  "(6 / 10 :: real) \<le> 9 / 10
   \<and> set (find_entity_matches lev_ratio (DataFrame example_names) match_on_name (9 / 10))
       \<subseteq> set (find_entity_matches lev_ratio (DataFrame example_names) match_on_name (6 / 10))
   \<and> length (find_entity_matches lev_ratio (DataFrame example_names) match_on_name (9 / 10))
       \<le> length (find_entity_matches lev_ratio (DataFrame example_names) match_on_name (6 / 10))
   \<and> length (find_entity_matches lev_ratio (DataFrame example_names) match_on_name (9 / 10)) = 1
   \<and> length (find_entity_matches lev_ratio (DataFrame example_names) match_on_name (6 / 10)) = 3"
proof -
  have le: "(6 / 10 :: real) \<le> 9 / 10" by simp
  have n9: "length (find_entity_matches lev_ratio (DataFrame example_names) match_on_name (9 / 10)) = 1"
    by code_simp
  have n6: "length (find_entity_matches lev_ratio (DataFrame example_names) match_on_name (6 / 10)) = 3"
    by code_simp
  from threshold_monotonicity[OF le, of lev_ratio "DataFrame example_names" match_on_name] le n9 n6
  show ?thesis by blast
qed

text \<open>
  Claim C10. For every record list and every threshold, \<open>find_matches\<close> with an empty
  (or absent) list of matching fields returns the empty match list and raises no error,
  whatever the string ratio is: no pair is scored.
\<close>

theorem empty_match_fields_no_match:
  assumes "config_get (matching_fields config) [] = []"
  shows "find_matches ratio data config threshold = Inr []"
  using assms by (simp add: find_matches_def find_entity_matches_def)

theorem empty_match_fields_no_match_witness:
  "find_matches lev_ratio example_names
     \<lparr>similarity_fields = None, similarity_threshold = None, matching_fields = Some []\<rparr> 0 = Inr []
   \<and> find_matches lev_ratio example_names
     \<lparr>similarity_fields = None, similarity_threshold = None, matching_fields = None\<rparr> 0 = Inr []"
  using empty_match_fields_no_match[of "\<lparr>similarity_fields = None, similarity_threshold = None, matching_fields = Some []\<rparr>"]
        empty_match_fields_no_match[of "\<lparr>similarity_fields = None, similarity_threshold = None, matching_fields = None\<rparr>"]
  by (simp add: config_get_def)

subsection \<open>The merge engine\<close>

lemma merge_loop_error:
  "merge_loop df s ms acc = Inl e \<Longrightarrow> e = IndexError"
  by (induction df s ms acc rule: merge_loop.induct)
     (auto simp: Let_def iloc_def split: if_splits sum.splits)

lemma merge_error:
  "merge_matched_entities df ms s = Inl e \<Longrightarrow> e = IndexError"
  by (auto simp: merge_matched_entities_def split: sum.splits dest: merge_loop_error)

lemma merge_loop_in_range:
  assumes "\<forall>m \<in> set ms. entity_1_index m < length (rows df) \<and> entity_2_index m < length (rows df)"
  shows "\<exists>acc'. merge_loop df s ms acc = Inr acc'"
  using assms
  by (induction df s ms acc rule: merge_loop.induct) (auto simp: Let_def iloc_def)

lemma merge_matched_entities_in_range:
  assumes "\<forall>m \<in> set ms. entity_1_index m < length (rows df) \<and> entity_2_index m < length (rows df)"
  shows "\<exists>out. merge_matched_entities df ms s = Inr out"
  using merge_loop_in_range[OF assms, of s "([], {})"]
  by (auto simp: merge_matched_entities_def)

lemma merge_of_found_matches:
  "\<exists>out. merge_matched_entities df (find_entity_matches ratio df config t) s = Inr out"
  by (rule merge_matched_entities_in_range) (use find_entity_matches_in_range in fastforce)

text \<open>
  With a strategy that is none of the three, the loop appends, for each match it does not
  skip, the first row's dict with the provenance and the score.
\<close>

lemma merge_loop_unknown_strategy:
  assumes "s \<notin> {''latest_wins'', ''first_wins'', ''concatenate''}"
    and "merge_loop df s ms (acc, P) = Inr (merged, P')"
  shows "merged = acc @ map (\<lambda>m. (out_of_cells (to_dict (row_at df (entity_1_index m))))
                              (''_merged_from'' \<mapsto> MergedFrom
                                 [get_id (to_dict (row_at df (entity_1_index m))),
                                  get_id (to_dict (row_at df (entity_2_index m)))],
                               ''_similarity_score'' \<mapsto> Score (similarity_score m)))
                          (accepted_pairs ms P)
         \<and> P' = P \<union> (\<Union>m \<in> set (accepted_pairs ms P). {entity_1_index m, entity_2_index m})"
  using assms(2)
proof (induction ms arbitrary: acc P)
  case Nil
  then show ?case by simp
next
  case (Cons m ms)
  show ?case
  proof (cases "entity_1_index m \<in> P \<or> entity_2_index m \<in> P")
    case True
    with Cons.prems have "merge_loop df s ms (acc, P) = Inr (merged, P')"
      by (simp add: Let_def)
    from Cons.IH[OF this] True show ?thesis by simp
  next
    case False
    let ?r = "(out_of_cells (to_dict (row_at df (entity_1_index m))))
                (''_merged_from'' \<mapsto> MergedFrom
                   [get_id (to_dict (row_at df (entity_1_index m))),
                    get_id (to_dict (row_at df (entity_2_index m)))],
                 ''_similarity_score'' \<mapsto> Score (similarity_score m))"
    have a: "apply_strategy s r1 r2 = r1" for r1 r2
      using assms(1) by (simp add: apply_strategy_def)
    from Cons.prems False
    have "merge_loop df s ms (acc @ [?r], P \<union> {entity_1_index m, entity_2_index m}) = Inr (merged, P')"
      by (simp add: Let_def iloc_def a split: if_splits)
    from Cons.IH[OF this] False show ?thesis
      by (simp add: Un_assoc del: fun_upd_apply)
  qed
qed

text \<open>
  Claim C3, as amended. A merge call whose strategy is not one of \<open>latest_wins\<close>,
  \<open>first_wins\<close>, \<open>concatenate\<close> does not fail with InvalidConfig: the strategy falls to the
  default branch. With matches whose positions are in the frame, the call returns, for each
  accepted pair in order, the first record's fields with the provenance of the pair and its
  score added, followed by the rows whose index label is not a claimed position.
\<close>

theorem unknown_strategy_defaults_to_first_record:
  assumes "merge_strategy \<notin> {''latest_wins'', ''first_wins'', ''concatenate''}"
  shows "merge_matched_entities df matches merge_strategy \<noteq> Inl InvalidConfig
         \<and> ((\<forall>m \<in> set matches. entity_1_index m < length (rows df)
                                 \<and> entity_2_index m < length (rows df)) \<longrightarrow>
             merge_matched_entities df matches merge_strategy
             = Inr (map (\<lambda>m. (out_of_cells (to_dict (row_at df (entity_1_index m))))
                               (''_merged_from'' \<mapsto> MergedFrom
                                  [get_id (to_dict (row_at df (entity_1_index m))),
                                   get_id (to_dict (row_at df (entity_2_index m)))],
                                ''_similarity_score'' \<mapsto> Score (similarity_score m)))
                        (accepted_pairs matches {})
                    @ map (\<lambda>(i, row). out_of_cells (to_dict (zip (columns df) row)))
                        (filter (\<lambda>(i, row). i \<notin> (\<Union>m \<in> set (accepted_pairs matches {}).
                                                     {entity_1_index m, entity_2_index m}))
                           (zip (index df) (rows df)))))
         \<and> apply_strategy merge_strategy record1 record2 = record1"
proof (intro conjI impI)
  show "merge_matched_entities df matches merge_strategy \<noteq> Inl InvalidConfig"
    using merge_error[of df matches merge_strategy InvalidConfig] by auto
  show "apply_strategy merge_strategy record1 record2 = record1"
    using assms by (simp add: apply_strategy_def)
  assume rng: "\<forall>m \<in> set matches. entity_1_index m < length (rows df)
                                 \<and> entity_2_index m < length (rows df)"
  from merge_loop_in_range[OF rng, of merge_strategy "([], {})"]
  obtain merged P where loop: "merge_loop df merge_strategy matches ([], {}) = Inr (merged, P)"
    by (cases "merge_loop df merge_strategy matches ([], {})") auto
  from merge_loop_unknown_strategy[OF assms loop]
  have "merged = map (\<lambda>m. (out_of_cells (to_dict (row_at df (entity_1_index m))))
                               (''_merged_from'' \<mapsto> MergedFrom
                                  [get_id (to_dict (row_at df (entity_1_index m))),
                                   get_id (to_dict (row_at df (entity_2_index m)))],
                                ''_similarity_score'' \<mapsto> Score (similarity_score m)))
                        (accepted_pairs matches {})"
    and "P = (\<Union>m \<in> set (accepted_pairs matches {}). {entity_1_index m, entity_2_index m})"
    by simp_all
  with loop show "merge_matched_entities df matches merge_strategy
             = Inr (map (\<lambda>m. (out_of_cells (to_dict (row_at df (entity_1_index m))))
                               (''_merged_from'' \<mapsto> MergedFrom
                                  [get_id (to_dict (row_at df (entity_1_index m))),
                                   get_id (to_dict (row_at df (entity_2_index m)))],
                                ''_similarity_score'' \<mapsto> Score (similarity_score m)))
                        (accepted_pairs matches {})
                    @ map (\<lambda>(i, row). out_of_cells (to_dict (zip (columns df) row)))
                        (filter (\<lambda>(i, row). i \<notin> (\<Union>m \<in> set (accepted_pairs matches {}).
                                                     {entity_1_index m, entity_2_index m}))
                           (zip (index df) (rows df))))"
    by (simp add: merge_matched_entities_def)
qed

text \<open>
  The theorem on four records with two matching pairs, under the strategy "bogus": the
  two merged records have the fields of the first record of their pair, its empty city
  included, and no row passes through.
\<close>

theorem unknown_strategy_defaults_to_first_record_witness:
  "''bogus'' \<notin> {''latest_wins'', ''first_wins'', ''concatenate''}
   \<and> merge_matched_entities (DataFrame example_two_pairs)
        (find_entity_matches lev_ratio (DataFrame example_two_pairs) match_on_name (8 / 10)) ''bogus''
       \<noteq> Inl InvalidConfig
   \<and> map (\<lambda>m. (entity_1_index m, entity_2_index m))
        (accepted_pairs
           (find_entity_matches lev_ratio (DataFrame example_two_pairs) match_on_name (8 / 10)) {})
       = [(0, 1), (2, 3)]
   \<and> shown [''id'', ''name'', ''city'', ''_merged_from'', ''_similarity_score'']
        (merge_matched_entities (DataFrame example_two_pairs)
           (find_entity_matches lev_ratio (DataFrame example_two_pairs) match_on_name (8 / 10)) ''bogus'')
       = shown [''id'', ''name'', ''city'', ''_merged_from'', ''_similarity_score'']
          (Inr (map (\<lambda>m. (out_of_cells (to_dict (row_at (DataFrame example_two_pairs) (entity_1_index m))))
                               (''_merged_from'' \<mapsto> MergedFrom
                                  [get_id (to_dict (row_at (DataFrame example_two_pairs) (entity_1_index m))),
                                   get_id (to_dict (row_at (DataFrame example_two_pairs) (entity_2_index m)))],
                                ''_similarity_score'' \<mapsto> Score (similarity_score m)))
                  (accepted_pairs
                     (find_entity_matches lev_ratio (DataFrame example_two_pairs) match_on_name (8 / 10)) {})
                @ map (\<lambda>(i, row). out_of_cells (to_dict (zip (columns (DataFrame example_two_pairs)) row)))
                    (filter (\<lambda>(i, row). i \<notin> (\<Union>m \<in> set (accepted_pairs
                                 (find_entity_matches lev_ratio (DataFrame example_two_pairs) match_on_name (8 / 10)) {}).
                                                     {entity_1_index m, entity_2_index m}))
                       (zip (index (DataFrame example_two_pairs)) (rows (DataFrame example_two_pairs))))))
   \<and> shown [''id'', ''name'', ''city'', ''_merged_from'', ''_similarity_score'']
        (merge_matched_entities (DataFrame example_two_pairs)
           (find_entity_matches lev_ratio (DataFrame example_two_pairs) match_on_name (8 / 10)) ''bogus'')
       = Inr [[Some (Cell (Str ''1'')), Some (Cell (Str ''bob'')), Some (Cell (Str [])),
               Some (MergedFrom [Str ''1'', Str ''2'']), Some (Score 1)],
              [Some (Cell (Str ''3'')), Some (Cell (Str ''amy'')), Some (Cell (Str [])),
               Some (MergedFrom [Str ''3'', Str ''4'']), Some (Score 1)]]"
proof -
  have u: "''bogus'' \<notin> {''latest_wins'', ''first_wins'', ''concatenate''}" by simp
  have rng: "\<forall>m \<in> set (find_entity_matches lev_ratio (DataFrame example_two_pairs) match_on_name (8 / 10)).
               entity_1_index m < length (rows (DataFrame example_two_pairs))
               \<and> entity_2_index m < length (rows (DataFrame example_two_pairs))"
    using find_entity_matches_in_range by fastforce
  have acc: "map (\<lambda>m. (entity_1_index m, entity_2_index m))
        (accepted_pairs
           (find_entity_matches lev_ratio (DataFrame example_two_pairs) match_on_name (8 / 10)) {})
       = [(0, 1), (2, 3)]"
    by code_simp
  have ev: "shown [''id'', ''name'', ''city'', ''_merged_from'', ''_similarity_score'']
        (merge_matched_entities (DataFrame example_two_pairs)
           (find_entity_matches lev_ratio (DataFrame example_two_pairs) match_on_name (8 / 10)) ''bogus'')
       = Inr [[Some (Cell (Str ''1'')), Some (Cell (Str ''bob'')), Some (Cell (Str [])),
               Some (MergedFrom [Str ''1'', Str ''2'']), Some (Score 1)],
              [Some (Cell (Str ''3'')), Some (Cell (Str ''amy'')), Some (Cell (Str [])),
               Some (MergedFrom [Str ''3'', Str ''4'']), Some (Score 1)]]"
    by code_simp
  from unknown_strategy_defaults_to_first_record[OF u, of "DataFrame example_two_pairs"
         "find_entity_matches lev_ratio (DataFrame example_two_pairs) match_on_name (8 / 10)"] rng
  have ne: "merge_matched_entities (DataFrame example_two_pairs)
        (find_entity_matches lev_ratio (DataFrame example_two_pairs) match_on_name (8 / 10)) ''bogus''
       \<noteq> Inl InvalidConfig"
    and eq: "merge_matched_entities (DataFrame example_two_pairs)
           (find_entity_matches lev_ratio (DataFrame example_two_pairs) match_on_name (8 / 10)) ''bogus''
       = Inr (map (\<lambda>m. (out_of_cells (to_dict (row_at (DataFrame example_two_pairs) (entity_1_index m))))
                               (''_merged_from'' \<mapsto> MergedFrom
                                  [get_id (to_dict (row_at (DataFrame example_two_pairs) (entity_1_index m))),
                                   get_id (to_dict (row_at (DataFrame example_two_pairs) (entity_2_index m)))],
                                ''_similarity_score'' \<mapsto> Score (similarity_score m)))
                  (accepted_pairs
                     (find_entity_matches lev_ratio (DataFrame example_two_pairs) match_on_name (8 / 10)) {})
                @ map (\<lambda>(i, row). out_of_cells (to_dict (zip (columns (DataFrame example_two_pairs)) row)))
                    (filter (\<lambda>(i, row). i \<notin> (\<Union>m \<in> set (accepted_pairs
                                 (find_entity_matches lev_ratio (DataFrame example_two_pairs) match_on_name (8 / 10)) {}).
                                                     {entity_1_index m, entity_2_index m}))
                       (zip (index (DataFrame example_two_pairs)) (rows (DataFrame example_two_pairs)))))"
    by blast+
  show ?thesis
    apply (intro conjI)
        apply (rule u)
       apply (rule ne)
      apply (rule acc)
     apply (rule arg_cong[where f = "shown [''id'', ''name'', ''city'', ''_merged_from'', ''_similarity_score'']"])
     apply (rule eq)
    apply (rule ev)
    done
qed

text \<open>
  Claim C3 as stated fails: with the strategy "bogus" the merge of two matching records
  returns a merged record, which has the first record's empty city.
\<close>

theorem unknown_strategy_accepted_counterexample:
  "shown [''id'', ''name'', ''city'', ''_merged_from'', ''_similarity_score'']
     (merge_matched_entities (DataFrame example_pair)
        (find_entity_matches lev_ratio (DataFrame example_pair) match_on_name (8 / 10)) ''bogus'')
   = Inr [[Some (Cell (Str ''1'')), Some (Cell (Str ''bob'')), Some (Cell (Str [])),
           Some (MergedFrom [Str ''1'', Str ''2'']), Some (Score 1)]]"
  by code_simp






text \<open>
  A key that only one input record has is NaN in the other record's row, NaN is true in
  Python's sense, and the concatenation joins it as the text \<open>nan\<close>.
\<close>

lemma concatenate_joins_missing_value:
  "merge_concatenate [''city'' \<mapsto> Str ''Oslo''] [''city'' \<mapsto> NaN] ''city'' = Some (Str ''Oslo | nan'')"
  by (simp add: merge_concatenate_def get_or_empty_def)

text \<open>
  Claim C1 says that the merge returns as many records as its input has, less the accepted
  disjoint pairs, and that every input record is in exactly one output record. The code
  does otherwise on the frame that \<open>reconcile_entities\<close> passes to the merge after a
  deduplication that removed a row. The frame keeps the index labels 0, 2, 3 of the rows
  kept; the matcher pairs positions 1 and 2 (ids 2 and 3); the last loop of the merge tests
  the labels against these positions, so the row labelled 3 (id 3), which was merged, is
  emitted again as a standalone record: three output records for three input records and
  one accepted pair.
\<close>

theorem merge_after_dedup_emits_record_twice:
  "index (deduplicate_dataframe lev_ratio (DataFrame example_batch) match_on_name) = [0, 2, 3]
   \<and> rows (deduplicate_dataframe lev_ratio (DataFrame example_batch) match_on_name)
       = [[Str ''1'', Str ''a''], [Str ''2'', Str ''bob''], [Str ''3'', Str ''bob'']]
   \<and> map (\<lambda>m. (entity_1_index m, entity_2_index m))
         (find_entity_matches lev_ratio
            (deduplicate_dataframe lev_ratio (DataFrame example_batch) match_on_name)
            match_on_name (8 / 10)) = [(1, 2)]
   \<and> shown [''id'', ''name'', ''_merged_from'']
         (merge_matched_entities
            (deduplicate_dataframe lev_ratio (DataFrame example_batch) match_on_name)
            (find_entity_matches lev_ratio
               (deduplicate_dataframe lev_ratio (DataFrame example_batch) match_on_name)
               match_on_name (8 / 10))
            ''latest_wins'')
       = Inr [[Some (Cell (Str ''3'')), Some (Cell (Str ''bob'')), Some (MergedFrom [Str ''2'', Str ''3''])],
              [Some (Cell (Str ''1'')), Some (Cell (Str ''a'')), None],
              [Some (Cell (Str ''3'')), Some (Cell (Str ''bob'')), None]]
   \<and> map_sum id (\<lambda>(res, self'). (original_records res, deduplicated_records res, matched_pairs res,
                                   length (merged_records res)))
         (reconcile_entities lev_ratio \<lparr>reconciliation_history = []\<rparr> ''job-1'' 0 0
            example_batch match_on_name ''customer'' (8 / 10) True ''latest_wins'')
       = Inr (4, 3, 1, 3)"
proof -
  let ?df = "\<lparr>columns = [''id'', ''name''], index = [0, 2, 3],
              rows = [[Str ''1'', Str ''a''], [Str ''2'', Str ''bob''], [Str ''3'', Str ''bob'']]\<rparr>"
  let ?ms = "[\<lparr>entity_1_index = 1, entity_2_index = 2, entity_1_id = Str ''2'',
               entity_2_id = Str ''3'', similarity_score = 1, match_fields = [''name'']\<rparr>]"
  have d: "deduplicate_dataframe lev_ratio (DataFrame example_batch) match_on_name = ?df"
    by code_simp
  have f: "find_entity_matches lev_ratio ?df match_on_name (8 / 10) = ?ms"
    by code_simp
  have m: "shown [''id'', ''name'', ''_merged_from''] (merge_matched_entities ?df ?ms ''latest_wins'')
       = Inr [[Some (Cell (Str ''3'')), Some (Cell (Str ''bob'')), Some (MergedFrom [Str ''2'', Str ''3''])],
              [Some (Cell (Str ''1'')), Some (Cell (Str ''a'')), None],
              [Some (Cell (Str ''3'')), Some (Cell (Str ''bob'')), None]]"
    by code_simp
  have l: "map_sum id length (merge_matched_entities ?df ?ms ''latest_wins'') = Inr 3"
    by code_simp
  then obtain out where o: "merge_matched_entities ?df ?ms ''latest_wins'' = Inr out" "length out = 3"
    by (cases "merge_matched_entities ?df ?ms ''latest_wins''") auto
  have n: "length (rows (DataFrame example_batch)) = 4"
    by code_simp
  have r: "map_sum id (\<lambda>(res, self'). (original_records res, deduplicated_records res, matched_pairs res,
                                   length (merged_records res)))
         (reconcile_entities lev_ratio \<lparr>reconciliation_history = []\<rparr> ''job-1'' 0 0
            example_batch match_on_name ''customer'' (8 / 10) True ''latest_wins'')
       = Inr (4, 3, 1, 3)"
    unfolding reconcile_entities_def Let_def if_True d f o(1) n by (simp add: o(2))
  show ?thesis
    unfolding d f using m r by simp
qed

text \<open>
  On a frame whose index labels are the positions, as \<open>pd.DataFrame\<close> builds it, the merge
  conserves the records: with the matches of the matcher, the loop claims two positions for
  each merged record, the rows at the positions not claimed pass through once each, in
  order, and the output has as many records as the input less the merged pairs.
\<close>

lemma merge_loop_claims:
  assumes "\<forall>m \<in> set ms. entity_1_index m < length (rows df) \<and> entity_2_index m < length (rows df)
                        \<and> entity_1_index m \<noteq> entity_2_index m"
    and "P \<subseteq> {p. p < length (rows df)}"
    and "card P = 2 * length acc"
  shows "\<exists>merged P'. merge_loop df s ms (acc, P) = Inr (merged, P')
           \<and> P' \<subseteq> {p. p < length (rows df)} \<and> card P' = 2 * length merged"
  using assms
proof (induction ms arbitrary: acc P)
  case Nil
  then show ?case by simp
next
  case (Cons m ms)
  let ?i = "entity_1_index m" and ?j = "entity_2_index m"
  have rng: "?i < length (rows df)" "?j < length (rows df)" "?i \<noteq> ?j"
    using Cons.prems(1) by simp_all
  have rest: "\<forall>m \<in> set ms. entity_1_index m < length (rows df) \<and> entity_2_index m < length (rows df)
                        \<and> entity_1_index m \<noteq> entity_2_index m"
    using Cons.prems(1) by simp
  show ?case
  proof (cases "?i \<in> P \<or> ?j \<in> P")
    case True
    then show ?thesis
      using Cons.IH[OF rest Cons.prems(2,3)] by (simp add: Let_def)
  next
    case False
    have fin: "finite P"
      using Cons.prems(2) by (rule finite_subset) simp
    define rec1 where "rec1 = (out_of_cells (apply_strategy s (to_dict (row_at df ?i)) (to_dict (row_at df ?j))))
        (''_merged_from'' \<mapsto> MergedFrom [get_id (to_dict (row_at df ?i)), get_id (to_dict (row_at df ?j))],
         ''_similarity_score'' \<mapsto> Score (similarity_score m))"
    have sub: "P \<union> {?i, ?j} \<subseteq> {p. p < length (rows df)}"
      using Cons.prems(2) rng by auto
    have crd: "card (P \<union> {?i, ?j}) = 2 * length (acc @ [rec1])"
      using False fin rng(3) Cons.prems(3) by simp
    have "merge_loop df s (m # ms) (acc, P) = merge_loop df s ms (acc @ [rec1], P \<union> {?i, ?j})"
      using False rng by (simp add: Let_def iloc_def rec1_def)
    with Cons.IH[OF rest sub crd] show ?thesis by simp
  qed
qed

lemma length_filter_not_claimed:
  assumes "P \<subseteq> {p. p < n}"
  shows "length (filter (\<lambda>p. p \<notin> P) [0..<n]) = n - card P"
proof -
  have fin: "finite P" using assms by (rule finite_subset) simp
  have "length (filter (\<lambda>p. p \<notin> P) [0..<n]) = card (set (filter (\<lambda>p. p \<notin> P) [0..<n]))"
    by (rule distinct_card[symmetric]) simp
  also have "set (filter (\<lambda>p. p \<notin> P) [0..<n]) = {p. p < n} - P" by auto
  also have "card ({p. p < n} - P) = n - card P"
    using assms fin by (simp add: card_Diff_subset)
  finally show ?thesis .
qed

lemma merge_fresh_frame:
  assumes fresh: "index df = [0..<length (rows df)]"
    and ms: "\<forall>m \<in> set ms. entity_1_index m < length (rows df) \<and> entity_2_index m < length (rows df)
                        \<and> entity_1_index m \<noteq> entity_2_index m"
  shows "\<exists>merged P. merge_loop df s ms ([], {}) = Inr (merged, P)
           \<and> card P = 2 * length merged
           \<and> merge_matched_entities df ms s
               = Inr (merged @ map (\<lambda>p. out_of_cells (to_dict (row_at df p)))
                                  (filter (\<lambda>p. p \<notin> P) [0..<length (rows df)]))
           \<and> length (merged @ map (\<lambda>p. out_of_cells (to_dict (row_at df p)))
                                  (filter (\<lambda>p. p \<notin> P) [0..<length (rows df)]))
               = length (rows df) - length merged"
proof -
  let ?n = "length (rows df)"
  from merge_loop_claims[OF ms, of "{}" "[]" s]
  obtain merged P where loop: "merge_loop df s ms ([], {}) = Inr (merged, P)"
    and sub: "P \<subseteq> {p. p < ?n}" and crd: "card P = 2 * length merged"
    by auto
  have z: "zip [0..<?n] (rows df) = map (\<lambda>p. (p, rows df ! p)) [0..<?n]"
    by (intro nth_equalityI) simp_all
  have pass: "map (\<lambda>(i, row). out_of_cells (to_dict (zip (columns df) row)))
                (filter (\<lambda>(i, row). i \<notin> P) (zip (index df) (rows df)))
              = map (\<lambda>p. out_of_cells (to_dict (row_at df p))) (filter (\<lambda>p. p \<notin> P) [0..<?n])"
    by (simp add: fresh z filter_map o_def row_at_def)
  have len: "length (merged @ map (\<lambda>p. out_of_cells (to_dict (row_at df p)))
                                  (filter (\<lambda>p. p \<notin> P) [0..<?n])) = ?n - length merged"
    using length_filter_not_claimed[OF sub] crd
          card_mono[OF _ sub] by simp
  show ?thesis
    using loop crd pass len by (simp add: merge_matched_entities_def)
qed

lemma merge_conserves_without_dedup:
  "\<exists>merged P. merge_loop (DataFrame data) s (find_entity_matches ratio (DataFrame data) config t) ([], {})
             = Inr (merged, P)
           \<and> card P = 2 * length merged
           \<and> merge_matched_entities (DataFrame data) (find_entity_matches ratio (DataFrame data) config t) s
               = Inr (merged @ map (\<lambda>p. out_of_cells (to_dict (row_at (DataFrame data) p)))
                                  (filter (\<lambda>p. p \<notin> P) [0..<length data]))
           \<and> length (merged @ map (\<lambda>p. out_of_cells (to_dict (row_at (DataFrame data) p)))
                                  (filter (\<lambda>p. p \<notin> P) [0..<length data]))
               = length data - length merged"
proof -
  have fresh: "index (DataFrame data) = [0..<length (rows (DataFrame data))]"
    by (simp add: DataFrame_def Let_def)
  have ms: "\<forall>m \<in> set (find_entity_matches ratio (DataFrame data) config t).
              entity_1_index m < length (rows (DataFrame data))
              \<and> entity_2_index m < length (rows (DataFrame data))
              \<and> entity_1_index m \<noteq> entity_2_index m"
    using find_entity_matches_in_range[of _ ratio "DataFrame data" config t] by fastforce
  from merge_fresh_frame[OF fresh ms, of s] show ?thesis
    by (simp only: length_rows_DataFrame)
qed

subsection \<open>The deduplicator\<close>


















subsection \<open>The confidence aggregation\<close>

text \<open>
  Claim C7, as amended. For the empty match list the confidence aggregation returns the
  empty dict: it has no key at all, neither a count nor a statistic. Nothing is raised.
\<close>

theorem empty_summary_is_empty_dict:
  "calculate_confidence_scores [] = Map.empty"
  by (simp add: calculate_confidence_scores_def)

text \<open>
  Claim C7 as stated fails: the summary of the empty match list holds no count and no
  zeroed statistic.
\<close>

theorem empty_summary_not_zeroed_counterexample:
  "calculate_confidence_scores [] ''count'' = None
   \<and> calculate_confidence_scores [] ''average_confidence'' = None
   \<and> calculate_confidence_scores [] ''min_confidence'' = None
   \<and> calculate_confidence_scores [] ''max_confidence'' = None
   \<and> calculate_confidence_scores [] ''std_confidence'' = None
   \<and> calculate_confidence_scores [] ''high_confidence_count'' = None
   \<and> calculate_confidence_scores [] ''medium_confidence_count'' = None
   \<and> calculate_confidence_scores [] ''low_confidence_count'' = None"
  by (simp add: calculate_confidence_scores_def)

subsection \<open>The reconciliation call\<close>

lemma reconcile_entities_completes:
  "\<exists>res. reconcile_entities ratio self rid now elapsed data config entity_type threshold
           deduplication merge_strategy
       = Inr (res, self\<lparr>reconciliation_history := reconciliation_history self @
                [\<lparr>job_reconciliation_id = rid,
                  job_entity_type = entity_type,
                  job_original_records = length data,
                  job_deduplicated_records = deduplicated_records res,
                  job_matched_pairs = matched_pairs res,
                  job_execution_time = elapsed,
                  job_timestamp = now,
                  job_status = ''completed''\<rparr>]\<rparr>)
       \<and> original_records res = length data"
proof -
  define df where "df = (if deduplication then deduplicate_dataframe ratio (DataFrame data) config else DataFrame data)"
  obtain out where "merge_matched_entities df (find_entity_matches ratio df config threshold) merge_strategy = Inr out"
    using merge_of_found_matches by blast
  then show ?thesis
    by (simp add: reconcile_entities_def Let_def df_def length_rows_DataFrame)
qed

text \<open>
  Claim C2, as amended. \<open>reconcile_entities\<close> checks no batch-size ceiling: for every
  input, whatever its number of records, the call is not rejected; it returns a result
  that counts all the input records, and appends one job with status "completed" to the
  history.
\<close>

theorem reconcile_entities_has_no_ceiling:
  "\<not> isl (reconcile_entities ratio self rid now elapsed data config entity_type threshold
             deduplication merge_strategy)
   \<and> original_records (fst (projr (reconcile_entities ratio self rid now elapsed data config
         entity_type threshold deduplication merge_strategy))) = length data
   \<and> map job_status (reconciliation_history (snd (projr (reconcile_entities ratio self rid now
         elapsed data config entity_type threshold deduplication merge_strategy))))
       = map job_status (reconciliation_history self) @ [''completed'']"
proof -
  from reconcile_entities_completes[of ratio self rid now elapsed data config entity_type
         threshold deduplication merge_strategy]
  obtain res where
    r: "reconcile_entities ratio self rid now elapsed data config entity_type threshold
           deduplication merge_strategy
         = Inr (res, self\<lparr>reconciliation_history := reconciliation_history self @
                [\<lparr>job_reconciliation_id = rid,
                  job_entity_type = entity_type,
                  job_original_records = length data,
                  job_deduplicated_records = deduplicated_records res,
                  job_matched_pairs = matched_pairs res,
                  job_execution_time = elapsed,
                  job_timestamp = now,
                  job_status = ''completed''\<rparr>]\<rparr>)"
    and o: "original_records res = length data"
    by blast
  show ?thesis by (simp add: r o)
qed

text \<open>
  Claim C2 as stated fails: with the default ceiling of 10000, a request of 10001 records
  is not rejected with BatchTooLarge, and a job is recorded in the history.
\<close>

theorem batch_above_ceiling_accepted_counterexample:
  "max_batch_size default_settings < length (replicate 10001 [(''id'', ''7'')])
   \<and> reconcile_entities lev_ratio \<lparr>reconciliation_history = []\<rparr> ''job-1'' 0 0
        (replicate 10001 [(''id'', ''7'')])
        \<lparr>similarity_fields = None, similarity_threshold = None, matching_fields = None\<rparr>
        ''customer'' (8 / 10) True ''latest_wins'' \<noteq> Inl BatchTooLarge
   \<and> map job_status (reconciliation_history (snd (projr (reconcile_entities lev_ratio
        \<lparr>reconciliation_history = []\<rparr> ''job-1'' 0 0
        (replicate 10001 [(''id'', ''7'')])
        \<lparr>similarity_fields = None, similarity_threshold = None, matching_fields = None\<rparr>
        ''customer'' (8 / 10) True ''latest_wins'')))) = [''completed'']"
proof -
  from reconcile_entities_completes[of lev_ratio "\<lparr>reconciliation_history = []\<rparr>" "''job-1''" 0 0
        "replicate 10001 [(''id'', ''7'')]"
        "\<lparr>similarity_fields = None, similarity_threshold = None, matching_fields = None\<rparr>"
        "''customer''" "8 / 10" True "''latest_wins''"]
  obtain res self' where
    r: "reconcile_entities lev_ratio \<lparr>reconciliation_history = []\<rparr> ''job-1'' 0 0
        (replicate 10001 [(''id'', ''7'')])
        \<lparr>similarity_fields = None, similarity_threshold = None, matching_fields = None\<rparr>
        ''customer'' (8 / 10) True ''latest_wins'' = Inr (res, self')"
    and h: "map job_status (reconciliation_history self') = [''completed'']"
    by fastforce
  show ?thesis unfolding r by (simp add: h default_settings_def)
qed

end
